theory Spec2Isabelle
  imports Main
begin

section \<open>Data model of \<^verbatim>\<open>automl/docker.py\<close>\<close>

text \<open>
  The module defines one class, \<^verbatim>\<open>DockerBenchmark\<close>. Its methods read the attributes
  of \<^verbatim>\<open>self\<close> and the process-wide configuration \<^verbatim>\<open>rconfig()\<close>, shell out through
  \<^verbatim>\<open>run_cmd\<close> and write one file. Python strings are modelled as HOL strings, a
  character being a code point below 256, and Python integers as \<^typ>\<open>int\<close>.
\<close>

text \<open>\<^verbatim>\<open>framework_def.docker_image\<close>: \<^verbatim>\<open>author\<close>, \<^verbatim>\<open>image\<close> (may be \<^verbatim>\<open>None\<close>) and
  \<^verbatim>\<open>tag\<close>. The field \<^verbatim>\<open>image\<close> is named \<open>image_opt\<close> here, \<open>image\<close> being a constant of
  HOL.\<close>

record docker_image_def =
  author :: string
  image_opt :: "string option"
  tag :: string

record framework_definition =
  name :: string
  docker_image :: docker_image_def

text \<open>The attributes of \<^verbatim>\<open>rconfig()\<close> that the module reads.\<close>

record run_config =
  max_parallel_jobs :: int
  input_dir :: string
  output_dir :: string
  script :: string

text \<open>
  The attributes of \<^verbatim>\<open>self\<close>. \<open>docker_commands\<close> is \<open>None\<close> when the framework module
  has no attribute \<^verbatim>\<open>docker_commands\<close>, and otherwise holds the string that calling it
  returns. \<open>framework_dir\<close> is the inherited property \<^verbatim>\<open>_framework_dir\<close>.
\<close>

record docker_benchmark =
  framework_name :: string
  benchmark_name :: string
  parallel_jobs :: int
  framework_def :: framework_definition
  docker_commands :: "string option"
  framework_dir :: string
  rconfig :: run_config

text \<open>\<^verbatim>\<open>Benchmark.SetupMode\<close>, of which \<^verbatim>\<open>setup\<close> tests the members \<^verbatim>\<open>skip\<close>,
  \<^verbatim>\<open>auto\<close> and \<^verbatim>\<open>force\<close>.\<close>

datatype setup_mode = Auto | Skip | Force

text \<open>
  A \<^verbatim>\<open>Job\<close> is built from its name, and \<^verbatim>\<open>_make_job\<close> then attaches the closure
  \<^verbatim>\<open>_run\<close>. The closure is represented by the one value it captures that decides what
  it does: the parameter string it hands to \<^verbatim>\<open>_start_docker\<close>.
\<close>

record job =
  job_name :: string
  job_params :: string



text \<open>
  What the module does to the outside world: a shell command handed to \<^verbatim>\<open>run_cmd\<close>, a
  file opened for writing and written, and a warning logged. The other log calls
  (debug and info) are not recorded.
\<close>

datatype effect = RunCmd string | WriteFile string string

datatype log_record = Warning string int

datatype error = CommandError string | OSError string | LookupError string

text \<open>
  The host: \<^verbatim>\<open>run_cmd\<close> returns the output of a command or raises, and opening and
  writing a file succeeds (\<open>None\<close>) or raises. \<^verbatim>\<open>run_cmd\<close> lives in \<^verbatim>\<open>automl/utils.py\<close>,
  which is not part of the sources, so both are parameters.
\<close>

record host =
  run_cmd :: "string \<Rightarrow> error + string"
  write_file :: "string \<Rightarrow> string \<Rightarrow> error option"

text \<open>
  A method that acts on the host yields the effects it attempted, in order, and either
  the exception that stopped it or its return value.
\<close>

type_synonym 'a outcome = "effect list \<times> (error + 'a)"

definition returns :: "'a \<Rightarrow> 'a outcome" where
  "returns x = ([], Inr x)"

definition and_then :: "'a outcome \<Rightarrow> ('a \<Rightarrow> 'b outcome) \<Rightarrow> 'b outcome" where
  "and_then m f =
     (case m of
        (t, Inl e) \<Rightarrow> (t, Inl e)
      | (t, Inr x) \<Rightarrow> (case f x of (t', r) \<Rightarrow> (t @ t', r)))"

definition do_run_cmd :: "host \<Rightarrow> string \<Rightarrow> string outcome" where
  "do_run_cmd h cmd = ([RunCmd cmd], run_cmd h cmd)"

definition do_write_file :: "host \<Rightarrow> string \<Rightarrow> string \<Rightarrow> unit outcome" where
  "do_write_file h path content =
     ([WriteFile path content],
      case write_file h path content of None \<Rightarrow> Inr () | Some e \<Rightarrow> Inl e)"

section \<open>String operations of Python used by the module\<close>

text \<open>\<^verbatim>\<open>str.lower()\<close>: below 256 the upper-case letters are \<^verbatim>\<open>A\<close> to \<^verbatim>\<open>Z\<close> and the
  code points \<^verbatim>\<open>0xC0\<close> to \<^verbatim>\<open>0xDE\<close> other than \<^verbatim>\<open>0xD7\<close>, and each maps to the code point
  32 above it.\<close>

definition char_lower :: "char \<Rightarrow> char" where
  "char_lower c =
     (case map_of
        (zip (''ABCDEFGHIJKLMNOPQRSTUVWXYZ''
              @ [CHR 0xC0, CHR 0xC1, CHR 0xC2, CHR 0xC3, CHR 0xC4, CHR 0xC5, CHR 0xC6, CHR 0xC7,
                 CHR 0xC8, CHR 0xC9, CHR 0xCA, CHR 0xCB, CHR 0xCC, CHR 0xCD, CHR 0xCE, CHR 0xCF,
                 CHR 0xD0, CHR 0xD1, CHR 0xD2, CHR 0xD3, CHR 0xD4, CHR 0xD5, CHR 0xD6,
                 CHR 0xD8, CHR 0xD9, CHR 0xDA, CHR 0xDB, CHR 0xDC, CHR 0xDD, CHR 0xDE])
             (''abcdefghijklmnopqrstuvwxyz''
              @ [CHR 0xE0, CHR 0xE1, CHR 0xE2, CHR 0xE3, CHR 0xE4, CHR 0xE5, CHR 0xE6, CHR 0xE7,
                 CHR 0xE8, CHR 0xE9, CHR 0xEA, CHR 0xEB, CHR 0xEC, CHR 0xED, CHR 0xEE, CHR 0xEF,
                 CHR 0xF0, CHR 0xF1, CHR 0xF2, CHR 0xF3, CHR 0xF4, CHR 0xF5, CHR 0xF6,
                 CHR 0xF8, CHR 0xF9, CHR 0xFA, CHR 0xFB, CHR 0xFC, CHR 0xFD, CHR 0xFE])) c of
        None \<Rightarrow> c
      | Some d \<Rightarrow> d)"

definition lower :: "string \<Rightarrow> string" where
  "lower s = map char_lower s"

text \<open>\<^verbatim>\<open>sep.join(xs)\<close>.\<close>

fun join :: "string \<Rightarrow> string list \<Rightarrow> string" where
  "join sep [] = []"
| "join sep [x] = x"
| "join sep (x # y # ys) = x @ sep @ join sep (y # ys)"

text \<open>\<^verbatim>\<open>str(n)\<close> for an integer: decimal digits, with a minus sign when negative.\<close>

fun str_nat :: "nat \<Rightarrow> string" where
  "str_nat n =
     (if n < 10 then [''0123456789'' ! n]
      else str_nat (n div 10) @ [''0123456789'' ! (n mod 10)])"

text \<open>The equation of \<open>str_nat\<close> rewrites its own right-hand side, so it is unfolded by
  hand.\<close>

declare str_nat.simps [simp del]

definition str_int :: "int \<Rightarrow> string" where
  "str_int i = (if i < 0 then CHR ''-'' # str_nat (nat (- i)) else str_nat (nat i))"

text \<open>
  \<^verbatim>\<open>str.strip()\<close>: the code points below 256 for which \<^verbatim>\<open>str.isspace()\<close> holds are
  tab, line feed, vertical tab, form feed, carriage return, the four separators
  \<^verbatim>\<open>0x1c\<close> to \<^verbatim>\<open>0x1f\<close>, the space, next line (\<^verbatim>\<open>0x85\<close>) and the no-break space
  (\<^verbatim>\<open>0xa0\<close>).
\<close>

definition is_space :: "char \<Rightarrow> bool" where
  "is_space c \<longleftrightarrow>
     c \<in> set [CHR 0x09, CHR 0x0A, CHR 0x0B, CHR 0x0C, CHR 0x0D,
              CHR 0x1C, CHR 0x1D, CHR 0x1E, CHR 0x1F, CHR 0x20, CHR 0x85, CHR 0xA0]"

definition strip :: "string \<Rightarrow> string" where
  "strip s = rev (dropWhile is_space (rev (dropWhile is_space s)))"

text \<open>
  \<^verbatim>\<open>re.match(r'^[0-9a-f]+$', s)\<close>, as a truth value. The match starts at the beginning
  of \<open>s\<close>; the character class takes one or more characters; without the multi-line
  flag \<^verbatim>\<open>$\<close> matches at the end of the string and just before a line feed that is the
  last character. Backtracking into the run of class characters cannot help, since
  \<^verbatim>\<open>$\<close> never matches in front of a class character.
\<close>

definition is_hex_digit :: "char \<Rightarrow> bool" where
  "is_hex_digit c \<longleftrightarrow> c \<in> set ''0123456789abcdef''"

definition at_dollar :: "string \<Rightarrow> bool" where
  "at_dollar rest \<longleftrightarrow> rest = [] \<or> rest = [CHR 0x0A]"

definition re_match_hex_id :: "string \<Rightarrow> bool" where
  "re_match_hex_id s \<longleftrightarrow>
     takeWhile is_hex_digit s \<noteq> [] \<and> at_dollar (dropWhile is_hex_digit s)"

text \<open>\<^verbatim>\<open>os.path.join(a, b)\<close> on a POSIX host.\<close>

definition path_join :: "string \<Rightarrow> string \<Rightarrow> string" where
  "path_join a b =
     (if b \<noteq> [] \<and> hd b = CHR ''/'' then b
      else if a = [] \<or> last a = CHR ''/'' then a @ b
      else a @ ''/'' @ b)"

section \<open>The methods of \<^verbatim>\<open>DockerBenchmark\<close>\<close>

text \<open>\<^verbatim>\<open>docker_image_name\<close>: \<^verbatim>\<open>di.image if di.image else framework_def.name.lower()\<close>
  takes the name both for \<^verbatim>\<open>None\<close> and for the empty string.\<close>

definition docker_image_name :: "framework_definition \<Rightarrow> string" where
  "docker_image_name fd =
     (let di = docker_image fd
      in author di @ ''/''
         @ (case image_opt di of
              None \<Rightarrow> lower (name fd)
            | Some i \<Rightarrow> if i \<noteq> [] then i else lower (name fd))
         @ '':'' @ tag di)"

text \<open>\<^verbatim>\<open>_validate\<close>: the updated object and the warnings logged. The method has no
  \<^verbatim>\<open>raise\<close> and calls nothing that raises.\<close>

definition validate :: "docker_benchmark \<Rightarrow> docker_benchmark \<times> log_record list" where
  "validate self =
     (if parallel_jobs self = 0 \<or> parallel_jobs self > max_parallel_jobs (rconfig self)
      then (self\<lparr>parallel_jobs := max_parallel_jobs (rconfig self)\<rparr>,
            [Warning ''forcing parallelization to its upper limit: %s''
               (max_parallel_jobs (rconfig self))])
      else (self, []))"

text \<open>The properties \<^verbatim>\<open>_docker_script\<close> and \<^verbatim>\<open>_docker_image_name\<close>.\<close>

definition docker_script :: "docker_benchmark \<Rightarrow> string" where
  "docker_script self = path_join (framework_dir self) ''Dockerfile''"

definition self_image_name :: "docker_benchmark \<Rightarrow> string" where
  "self_image_name self = docker_image_name (framework_def self)"

text \<open>The command lines the module composes.\<close>

definition images_cmd :: "docker_benchmark \<Rightarrow> string" where
  "images_cmd self = ''docker images -q '' @ self_image_name self"

definition build_cmd :: "docker_benchmark \<Rightarrow> bool \<Rightarrow> string" where
  "build_cmd self cache =
     ''docker build '' @ (if cache then '''' else ''--no-cache'')
     @ '' -t '' @ self_image_name self @ '' -f '' @ docker_script self @ '' .''"

definition push_cmd :: "docker_benchmark \<Rightarrow> string" where
  "push_cmd self = ''docker login && docker push '' @ self_image_name self"

definition run_docker_cmd :: "docker_benchmark \<Rightarrow> string \<Rightarrow> string" where
  "run_docker_cmd self script_params =
     ''docker run -v '' @ input_dir (rconfig self) @ '':/input -v ''
     @ output_dir (rconfig self) @ '':/output --rm '' @ self_image_name self
     @ '' '' @ script_params @ '' -i /input -o /output -s skip''"

text \<open>\<^verbatim>\<open>_docker_image_exists\<close>: the truth value of the match object it returns.\<close>

definition docker_image_exists :: "host \<Rightarrow> docker_benchmark \<Rightarrow> bool outcome" where
  "docker_image_exists h self =
     and_then (do_run_cmd h (images_cmd self))
       (\<lambda>output. returns (re_match_hex_id (strip output)))"

definition build_docker_image :: "host \<Rightarrow> docker_benchmark \<Rightarrow> bool \<Rightarrow> unit outcome" where
  "build_docker_image h self cache =
     and_then (do_run_cmd h (build_cmd self cache)) (\<lambda>output. returns ())"

definition upload_docker_image :: "host \<Rightarrow> docker_benchmark \<Rightarrow> unit outcome" where
  "upload_docker_image h self =
     and_then (do_run_cmd h (push_cmd self)) (\<lambda>output. returns ())"

text \<open>\<^verbatim>\<open>_generate_docker_script\<close>: the template, filled in, and the write.\<close>

definition docker_content :: "string \<Rightarrow> string \<Rightarrow> string \<Rightarrow> string" where
  \<open>docker_content custom_commands framework script_path = concat
    [''FROM ubuntu:18.04\<newline>'',
     ''\<newline>'',
     ''RUN apt-get update\<newline>'',
     ''RUN apt-get install -y curl wget unzip git\<newline>'',
     ''RUN apt-get install -y python3 python3-pip python3-venv\<newline>'',
     ''RUN pip3 install --upgrade pip\<newline>'',
     ''\<newline>'',
     ''# We create a virtual environment so that AutoML systems may use their preferred versions of \<newline>'',
     ''# packages that we need to data pre- and postprocessing without breaking it.\<newline>'',
     ''ENV PIP /venvs/bench/bin/pip3\<newline>'',
     ''ENV PY /venvs/bench/bin/python3 -W ignore\<newline>'',
     ''ENV SPIP pip3\<newline>'',
     ''ENV SPY python3\<newline>'',
     ''\<newline>'',
     ''RUN $SPY -m venv /venvs/bench\<newline>'',
     ''RUN $PIP install --upgrade pip\<newline>'',
     ''\<newline>'',
     ''WORKDIR /bench\<newline>'',
     ''VOLUME /input\<newline>'',
     ''VOLUME /output\<newline>'',
     ''\<newline>'',
     ''# Add the AutoML system except files listed in .dockerignore (could also use git clone directly?)\<newline>'',
     ''ADD . /bench/\<newline>'',
     ''\<newline>'',
     ''RUN $PIP install --no-cache-dir -r requirements.txt --process-dependency-links\<newline>'',
     ''RUN $PIP install --no-cache-dir openml\<newline>'',
     ''\<newline>'',
     custom_commands,
     ''\<newline>'',
     ''\<newline>'',
     ''# https://docs.docker.com/engine/reference/builder/#entrypoint\<newline>'',
     ''ENTRYPOINT ["/bin/bash", "-c", "$PY '',
     script_path,
     '' $0 $*"]\<newline>'',
     ''CMD ["'',
     framework,
     ''", "test"]\<newline>'',
     ''\<newline>'']\<close>

definition generate_docker_script :: "host \<Rightarrow> docker_benchmark \<Rightarrow> string \<Rightarrow> unit outcome" where
  "generate_docker_script h self custom_commands =
     do_write_file h (docker_script self)
       (docker_content custom_commands (framework_name self) (script (rconfig self)))"

text \<open>
  \<^verbatim>\<open>setup\<close> (named \<open>setup_docker\<close>, \<open>setup\<close> being a keyword of Isabelle). The existence
  check runs only in mode \<^verbatim>\<open>auto\<close>, as the left operand of Python's \<^verbatim>\<open>and\<close> decides.
\<close>

definition custom_commands_of :: "docker_benchmark \<Rightarrow> string" where
  "custom_commands_of self = (case docker_commands self of None \<Rightarrow> '''' | Some c \<Rightarrow> c)"

definition setup_docker :: "host \<Rightarrow> docker_benchmark \<Rightarrow> setup_mode \<Rightarrow> bool \<Rightarrow> unit outcome" where
  "setup_docker h self mode upload =
     (if mode = Skip then returns ()
      else
        and_then (if mode = Auto then docker_image_exists h self else returns False)
          (\<lambda>exists.
             if mode = Auto \<and> exists then returns ()
             else
               and_then (generate_docker_script h self (custom_commands_of self))
                 (\<lambda>_. and_then (build_docker_image h self (mode \<noteq> Force))
                    (\<lambda>_. if upload then upload_docker_image h self else returns ()))))"

text \<open>
  \<^verbatim>\<open>_make_job\<close>. \<open>folds\<close> is \<open>None\<close> or a list of fold numbers; the job name uses
  the benchmark name when \<^verbatim>\<open>task_name\<close> is \<^verbatim>\<open>None\<close> or empty.
\<close>

definition make_job :: "docker_benchmark \<Rightarrow> string option \<Rightarrow> int list option \<Rightarrow> job" where
  "make_job self task_name folds =
     (let fs = (case folds of None \<Rightarrow> [] | Some l \<Rightarrow> map str_int l)
      in \<lparr>job_name =
            ''docker_''
            @ (case task_name of
                 None \<Rightarrow> benchmark_name self
               | Some t \<Rightarrow> if t \<noteq> [] then t else benchmark_name self)
            @ ''_'' @ join '':'' fs @ ''_'' @ framework_name self,
          job_params =
            framework_name self @ '' '' @ benchmark_name self @ '' ''
            @ (case task_name of None \<Rightarrow> '''' | Some t \<Rightarrow> ''-t '' @ t)
            @ '' ''
            @ (if length fs = 0 then '''' else join '' '' (''-f'' # fs))\<rparr>)"

text \<open>\<^verbatim>\<open>_start_docker\<close>, and what running a job does: its closure calls
  \<^verbatim>\<open>_start_docker\<close> with the job's parameters and returns nothing.\<close>

definition start_docker :: "host \<Rightarrow> docker_benchmark \<Rightarrow> string \<Rightarrow> unit outcome" where
  "start_docker h self script_params =
     and_then (do_run_cmd h (run_docker_cmd self script_params)) (\<lambda>output. returns ())"

definition job_run :: "host \<Rightarrow> docker_benchmark \<Rightarrow> job \<Rightarrow> unit outcome" where
  "job_run h self j = start_docker h self (job_params j)"



text \<open>
  The list \<^verbatim>\<open>jobs\<close> that \<^verbatim>\<open>run\<close> builds before it hands it to \<^verbatim>\<open>_run_jobs\<close>. The
  inherited \<^verbatim>\<open>_benchmark_jobs()\<close> is a parameter.
\<close>

definition run_jobs_of :: "docker_benchmark \<Rightarrow> job list \<Rightarrow> job list" where
  "run_jobs_of self benchmark_jobs =
     (if parallel_jobs self = 1 then [] @ [make_job self None None]
      else [] @ benchmark_jobs)"



section \<open>The specification's statements, for comparison with the code\<close>

text \<open>
  Stated from the specification: the value of \<^verbatim>\<open>parallel_jobs\<close> after validation is the
  requested value \<open>v\<close> if \<open>1 \<le> v \<le> max_parallel_jobs\<close>, and \<open>max_parallel_jobs\<close> otherwise.
\<close>

definition spec_clamped :: "int \<Rightarrow> int \<Rightarrow> int" where
  "spec_clamped v ceiling = (if 1 \<le> v \<and> v \<le> ceiling then v else ceiling)"

text \<open>
  Stated from the specification: the in-container command line
  \<^verbatim>\<open><framework> [<benchmark>|-t <task>] [-f <fold> ...] -i /input -o /output -s skip\<close>,
  as a list of words, with the benchmark name or else \<^verbatim>\<open>-t\<close> and the task name, and
  with each fold prefixed by the folds flag. The target is \<open>Inl benchmark\<close> or
  \<open>Inr task\<close>.
\<close>

definition spec_cli_words :: "string \<Rightarrow> string + string \<Rightarrow> int list \<Rightarrow> string list" where
  "spec_cli_words framework target folds =
     [framework]
     @ (case target of Inl benchmark \<Rightarrow> [benchmark] | Inr task \<Rightarrow> [''-t'', task])
     @ concat (map (\<lambda>f. [''-f'', str_int f]) folds)
     @ [''-i'', ''/input'', ''-o'', ''/output'', ''-s'', ''skip'']"

text \<open>
  The words of a command line: the maximal runs of characters other than white space,
  as \<^verbatim>\<open>str.split()\<close> and an unquoted shell line give them.
\<close>

fun split_ws_from :: "string \<Rightarrow> string \<Rightarrow> string list" where
  "split_ws_from w [] = (if w = [] then [] else [w])"
| "split_ws_from w (c # cs) =
     (if is_space c then (if w = [] then [] else [w]) @ split_ws_from [] cs
      else split_ws_from (w @ [c]) cs)"

definition split_ws :: "string \<Rightarrow> string list" where
  "split_ws s = split_ws_from [] s"

section \<open>Example inputs\<close>

text \<open>
  The scenario of the specification: framework \<^verbatim>\<open>h2o\<close> with author \<^verbatim>\<open>org\<close>, tag
  \<^verbatim>\<open>stable\<close> and no image name of its own, and benchmark \<^verbatim>\<open>small\<close>.
\<close>

abbreviation h2o_def :: framework_definition where
  "h2o_def \<equiv>
     \<lparr>name = ''h2o'',
      docker_image = \<lparr>author = ''org'', image_opt = None, tag = ''stable''\<rparr>\<rparr>"

abbreviation h2o_small :: docker_benchmark where
  "h2o_small \<equiv>
     \<lparr>framework_name = ''h2o'', benchmark_name = ''small'', parallel_jobs = 1,
      framework_def = h2o_def, docker_commands = None, framework_dir = ''frameworks/h2o'',
      rconfig = \<lparr>max_parallel_jobs = 4, input_dir = ''/data/in'', output_dir = ''/data/out'',
                 script = ''runbenchmark.py''\<rparr>\<rparr>"

text \<open>A host on which every command prints \<open>out\<close> and every write succeeds, and a host on
  which every command prints nothing and every write is refused.\<close>

abbreviation host_printing :: "string \<Rightarrow> host" where
  "host_printing out \<equiv> \<lparr>run_cmd = (\<lambda>cmd. Inr out), write_file = (\<lambda>path content. None)\<rparr>"

abbreviation read_only_host :: host where
  "read_only_host \<equiv>
     \<lparr>run_cmd = (\<lambda>cmd. Inr ''''),
      write_file = (\<lambda>path content. Some (OSError ''Permission denied''))\<rparr>"

section \<open>Auxiliary facts\<close>

subsection \<open>Outcomes and the commands\<close>

lemma and_then_Inl [simp]: "and_then (t, Inl e) f = (t, Inl e)"
  by (simp add: and_then_def)

lemma and_then_Inr [simp]: "and_then (t, Inr x) f = (t @ fst (f x), snd (f x))"
  by (simp add: and_then_def split: prod.splits)

lemma and_then_returns [simp]: "and_then (returns x) f = f x"
  by (simp add: and_then_def returns_def split: prod.splits)

lemma build_cmd_neq_images_cmd [simp]: "build_cmd self cache \<noteq> images_cmd self'"
  by (simp add: build_cmd_def images_cmd_def)

lemma build_cmd_neq_push_cmd [simp]: "build_cmd self cache \<noteq> push_cmd self'"
  by (simp add: build_cmd_def push_cmd_def)

lemma push_cmd_neq_images_cmd [simp]: "push_cmd self \<noteq> images_cmd self'"
  by (simp add: push_cmd_def images_cmd_def)

lemma build_cmd_cache_eq [simp]:
  "build_cmd self cache = build_cmd self cache' \<longleftrightarrow> cache = cache'"
  by (auto simp: build_cmd_def)

lemma docker_image_exists_eq:
  "docker_image_exists h self =
     ([RunCmd (images_cmd self)],
      case run_cmd h (images_cmd self) of
        Inl e \<Rightarrow> Inl e
      | Inr output \<Rightarrow> Inr (re_match_hex_id (strip output)))"
  by (simp add: docker_image_exists_def do_run_cmd_def and_then_def returns_def
           split: sum.splits)

lemma build_docker_image_eq:
  "build_docker_image h self cache =
     ([RunCmd (build_cmd self cache)],
      case run_cmd h (build_cmd self cache) of Inl e \<Rightarrow> Inl e | Inr output \<Rightarrow> Inr ())"
  by (simp add: build_docker_image_def do_run_cmd_def and_then_def returns_def
           split: sum.splits)

lemma upload_docker_image_eq:
  "upload_docker_image h self =
     ([RunCmd (push_cmd self)],
      case run_cmd h (push_cmd self) of Inl e \<Rightarrow> Inl e | Inr output \<Rightarrow> Inr ())"
  by (simp add: upload_docker_image_def do_run_cmd_def and_then_def returns_def
           split: sum.splits)

lemma generate_docker_script_eq:
  "generate_docker_script h self cc =
     ([WriteFile (docker_script self)
         (docker_content cc (framework_name self) (script (rconfig self)))],
      case write_file h (docker_script self)
             (docker_content cc (framework_name self) (script (rconfig self))) of
        None \<Rightarrow> Inr ()
      | Some e \<Rightarrow> Inl e)"
  by (simp add: generate_docker_script_def do_write_file_def)

lemmas setup_unfold =
  setup_docker_def docker_image_exists_eq build_docker_image_eq upload_docker_image_eq
  generate_docker_script_eq

lemma fst_job_run:
  "fst (job_run h self j) = [RunCmd (run_docker_cmd self (job_params j))]"
  by (simp add: job_run_def start_docker_def do_run_cmd_def and_then_def returns_def
           split: sum.splits)

subsection \<open>Stripping and matching\<close>

lemma strip_last_not_space: "strip s \<noteq> [] \<Longrightarrow> \<not> is_space (last (strip s))"
proof -
  assume a: "strip s \<noteq> []"
  let ?d = "dropWhile is_space (rev (dropWhile is_space s))"
  from a have d: "?d \<noteq> []" by (simp add: strip_def)
  then have "\<not> is_space (hd ?d)" by (rule hd_dropWhile)
  moreover from d have "last (strip s) = hd ?d" by (simp add: strip_def last_rev)
  ultimately show ?thesis by simp
qed

lemma re_match_hex_id_strip:
  "re_match_hex_id (strip out) \<longleftrightarrow> strip out \<noteq> [] \<and> list_all is_hex_digit (strip out)"
proof -
  let ?s = "strip out"
  have nl: "dropWhile is_hex_digit ?s \<noteq> [CHR 0x0A]"
  proof
    assume a: "dropWhile is_hex_digit ?s = [CHR 0x0A]"
    have "takeWhile is_hex_digit ?s @ dropWhile is_hex_digit ?s = ?s"
      by (rule takeWhile_dropWhile_id)
    with a have eq: "takeWhile is_hex_digit ?s @ [CHR 0x0A] = ?s" by simp
    then have "?s \<noteq> []" by auto
    moreover from eq have "last ?s = CHR 0x0A" by (metis last_snoc)
    ultimately show False
      using strip_last_not_space [of out] by (simp add: is_space_def)
  qed
  show ?thesis
  proof
    assume "re_match_hex_id ?s"
    with nl have t: "takeWhile is_hex_digit ?s \<noteq> []" and d: "dropWhile is_hex_digit ?s = []"
      by (auto simp: re_match_hex_id_def at_dollar_def)
    from t have "?s \<noteq> []" by auto
    moreover from d have "list_all is_hex_digit ?s"
      by (simp add: dropWhile_eq_Nil_conv list_all_iff)
    ultimately show "?s \<noteq> [] \<and> list_all is_hex_digit ?s" by simp
  next
    assume a: "?s \<noteq> [] \<and> list_all is_hex_digit ?s"
    then have "\<forall>x\<in>set ?s. is_hex_digit x" by (simp add: list_all_iff)
    then have t: "takeWhile is_hex_digit ?s = ?s" and d: "dropWhile is_hex_digit ?s = []"
      by (simp_all add: takeWhile_eq_all_conv dropWhile_eq_Nil_conv)
    from a t have "takeWhile is_hex_digit ?s \<noteq> []" by metis
    with d show "re_match_hex_id ?s"
      unfolding re_match_hex_id_def at_dollar_def by blast
  qed
qed

lemma snd_docker_image_exists:
  "run_cmd h (images_cmd self) = Inr out \<Longrightarrow>
   snd (docker_image_exists h self) = Inr (re_match_hex_id (strip out))"
  by (simp add: docker_image_exists_eq)

lemma strip_lower_hex_line: "strip ''a1b2c3d4\<newline>'' = ''a1b2c3d4''"
  by (simp add: strip_def is_space_def)

lemma strip_error_line: "strip ''Error: no such image\<newline>'' = ''Error: no such image''"
  by (simp add: strip_def is_space_def)

lemma strip_Nil: "strip [] = []"
  by (simp add: strip_def)

lemma match_lower_hex_line: "re_match_hex_id (strip ''a1b2c3d4\<newline>'')"
  by (simp add: strip_lower_hex_line re_match_hex_id_def at_dollar_def is_hex_digit_def)

lemma no_match_empty: "\<not> re_match_hex_id (strip [])"
  by (simp add: strip_Nil re_match_hex_id_def)

lemma strip_upper_hex_line: "strip ''A1B2C3D4\<newline>'' = ''A1B2C3D4''"
  by (simp add: strip_def is_space_def)

subsection \<open>Joining and decimal numerals\<close>

lemma join_Cons: "join sep (x # xs) = (if xs = [] then x else x @ sep @ join sep xs)"
  by (cases xs) simp_all

lemma str_int_0: "str_int 0 = ''0''"
  by (simp add: str_int_def str_nat.simps)

lemma str_int_1: "str_int 1 = ''1''"
  by (simp add: str_int_def str_nat.simps)

lemma make_job_params:
  "job_params (make_job self task_name folds) =
     framework_name self @ '' '' @ benchmark_name self @ '' ''
     @ (case task_name of None \<Rightarrow> '''' | Some t \<Rightarrow> ''-t '' @ t)
     @ '' ''
     @ (case folds of
          None \<Rightarrow> ''''
        | Some fs \<Rightarrow> if fs = [] then '''' else ''-f '' @ join '' '' (map str_int fs))"
  by (simp add: make_job_def Let_def join_Cons split: option.splits)

lemma make_job_name:
  "job_name (make_job self task_name (Some fs)) =
     ''docker_''
     @ (case task_name of
          None \<Rightarrow> benchmark_name self
        | Some t \<Rightarrow> if t \<noteq> [] then t else benchmark_name self)
     @ ''_'' @ join '':'' (map str_int fs) @ ''_'' @ framework_name self"
  by (simp add: make_job_def Let_def)

subsection \<open>Lower-casing\<close>

lemma upper_case_distinct:
  "distinct (''ABCDEFGHIJKLMNOPQRSTUVWXYZ''
      @ [CHR 0xC0, CHR 0xC1, CHR 0xC2, CHR 0xC3, CHR 0xC4, CHR 0xC5, CHR 0xC6, CHR 0xC7,
         CHR 0xC8, CHR 0xC9, CHR 0xCA, CHR 0xCB, CHR 0xCC, CHR 0xCD, CHR 0xCE, CHR 0xCF,
         CHR 0xD0, CHR 0xD1, CHR 0xD2, CHR 0xD3, CHR 0xD4, CHR 0xD5, CHR 0xD6,
         CHR 0xD8, CHR 0xD9, CHR 0xDA, CHR 0xDB, CHR 0xDC, CHR 0xDD, CHR 0xDE])"
  by simp

lemma char_lower_upper:
  assumes "(c, d) \<in> set (zip (''ABCDEFGHIJKLMNOPQRSTUVWXYZ''
      @ [CHR 0xC0, CHR 0xC1, CHR 0xC2, CHR 0xC3, CHR 0xC4, CHR 0xC5, CHR 0xC6, CHR 0xC7,
         CHR 0xC8, CHR 0xC9, CHR 0xCA, CHR 0xCB, CHR 0xCC, CHR 0xCD, CHR 0xCE, CHR 0xCF,
         CHR 0xD0, CHR 0xD1, CHR 0xD2, CHR 0xD3, CHR 0xD4, CHR 0xD5, CHR 0xD6,
         CHR 0xD8, CHR 0xD9, CHR 0xDA, CHR 0xDB, CHR 0xDC, CHR 0xDD, CHR 0xDE])
     (''abcdefghijklmnopqrstuvwxyz''
      @ [CHR 0xE0, CHR 0xE1, CHR 0xE2, CHR 0xE3, CHR 0xE4, CHR 0xE5, CHR 0xE6, CHR 0xE7,
         CHR 0xE8, CHR 0xE9, CHR 0xEA, CHR 0xEB, CHR 0xEC, CHR 0xED, CHR 0xEE, CHR 0xEF,
         CHR 0xF0, CHR 0xF1, CHR 0xF2, CHR 0xF3, CHR 0xF4, CHR 0xF5, CHR 0xF6,
         CHR 0xF8, CHR 0xF9, CHR 0xFA, CHR 0xFB, CHR 0xFC, CHR 0xFD, CHR 0xFE]))"
    (is "_ \<in> set (zip ?U ?L)")
  shows "char_lower c = d"
proof -
  have "length ?U = length ?L" by simp
  then have "map fst (zip ?U ?L) = ?U" by (rule map_fst_zip)
  with upper_case_distinct have "distinct (map fst (zip ?U ?L))" by (simp only:)
  from map_of_is_SomeI [OF this assms] show ?thesis
    by (simp only: char_lower_def option.case)
qed

lemma char_lower_other:
  assumes "c \<notin> set (''ABCDEFGHIJKLMNOPQRSTUVWXYZ''
      @ [CHR 0xC0, CHR 0xC1, CHR 0xC2, CHR 0xC3, CHR 0xC4, CHR 0xC5, CHR 0xC6, CHR 0xC7,
         CHR 0xC8, CHR 0xC9, CHR 0xCA, CHR 0xCB, CHR 0xCC, CHR 0xCD, CHR 0xCE, CHR 0xCF,
         CHR 0xD0, CHR 0xD1, CHR 0xD2, CHR 0xD3, CHR 0xD4, CHR 0xD5, CHR 0xD6,
         CHR 0xD8, CHR 0xD9, CHR 0xDA, CHR 0xDB, CHR 0xDC, CHR 0xDD, CHR 0xDE])"
    (is "_ \<notin> set ?U")
  shows "char_lower c = c"
proof -
  let ?L = "''abcdefghijklmnopqrstuvwxyz''
      @ [CHR 0xE0, CHR 0xE1, CHR 0xE2, CHR 0xE3, CHR 0xE4, CHR 0xE5, CHR 0xE6, CHR 0xE7,
         CHR 0xE8, CHR 0xE9, CHR 0xEA, CHR 0xEB, CHR 0xEC, CHR 0xED, CHR 0xEE, CHR 0xEF,
         CHR 0xF0, CHR 0xF1, CHR 0xF2, CHR 0xF3, CHR 0xF4, CHR 0xF5, CHR 0xF6,
         CHR 0xF8, CHR 0xF9, CHR 0xFA, CHR 0xFB, CHR 0xFC, CHR 0xFD, CHR 0xFE]"
  have "length ?U = length ?L" by simp
  then have m: "map fst (zip ?U ?L) = ?U" by (rule map_fst_zip)
  have "fst ` set (zip ?U ?L) = set (map fst (zip ?U ?L))" by (simp only: set_map)
  with m have e: "fst ` set (zip ?U ?L) = set ?U" by (simp only:)
  have "c \<notin> fst ` set (zip ?U ?L)" by (simp only: e assms not_False_eq_True)
  then have "map_of (zip ?U ?L) c = None" by (simp only: map_of_eq_None_iff not_False_eq_True)
  then show ?thesis by (simp only: char_lower_def option.case)
qed

lemma lower_append: "lower (s @ t) = lower s @ lower t"
  by (simp add: lower_def)

lemma lower_single: "lower [c] = [char_lower c]"
  by (simp add: lower_def)

section \<open>The image reference\<close>

text \<open>
  Claim C5. The image reference is a function of the fields of the framework definition
  alone: two definitions with the same name and the same \<^verbatim>\<open>docker_image\<close> give the same
  string. The string is \<^verbatim>\<open>{author}/{image}:{tag}\<close>; with \<^verbatim>\<open>image\<close> absent (or empty) the
  image component is the lower-cased framework name, and a non-empty \<^verbatim>\<open>image\<close> is used
  as it is. Lower-casing works character by character: it sends each upper-case letter
  to the lower-case letter at the same place of the two alphabets written out below, and
  leaves every other character as it is. Name \<^verbatim>\<open>h2o\<close>, author \<^verbatim>\<open>org\<close>, tag \<^verbatim>\<open>stable\<close>
  and no image give \<^verbatim>\<open>org/h2o:stable\<close>; name \<^verbatim>\<open>TPOT\<close> gives \<^verbatim>\<open>org/tpot:stable\<close>.
\<close>

theorem docker_image_name_pure:
  "(name fd = name fd' \<and> docker_image fd = docker_image fd'
      \<longrightarrow> docker_image_name fd = docker_image_name fd')
   \<and> (image_opt (docker_image fd) = None \<or> image_opt (docker_image fd) = Some []
      \<longrightarrow> docker_image_name fd
          = author (docker_image fd) @ ''/'' @ lower (name fd) @ '':'' @ tag (docker_image fd))
   \<and> (\<forall>i. image_opt (docker_image fd) = Some i \<and> i \<noteq> []
      \<longrightarrow> docker_image_name fd
          = author (docker_image fd) @ ''/'' @ i @ '':'' @ tag (docker_image fd))
   \<and> lower (s @ t) = lower s @ lower t
   \<and> ((c, d) \<in> set (zip
          (''ABCDEFGHIJKLMNOPQRSTUVWXYZ''
           @ [CHR 0xC0, CHR 0xC1, CHR 0xC2, CHR 0xC3, CHR 0xC4, CHR 0xC5, CHR 0xC6, CHR 0xC7,
              CHR 0xC8, CHR 0xC9, CHR 0xCA, CHR 0xCB, CHR 0xCC, CHR 0xCD, CHR 0xCE, CHR 0xCF,
              CHR 0xD0, CHR 0xD1, CHR 0xD2, CHR 0xD3, CHR 0xD4, CHR 0xD5, CHR 0xD6,
              CHR 0xD8, CHR 0xD9, CHR 0xDA, CHR 0xDB, CHR 0xDC, CHR 0xDD, CHR 0xDE])
          (''abcdefghijklmnopqrstuvwxyz''
           @ [CHR 0xE0, CHR 0xE1, CHR 0xE2, CHR 0xE3, CHR 0xE4, CHR 0xE5, CHR 0xE6, CHR 0xE7,
              CHR 0xE8, CHR 0xE9, CHR 0xEA, CHR 0xEB, CHR 0xEC, CHR 0xED, CHR 0xEE, CHR 0xEF,
              CHR 0xF0, CHR 0xF1, CHR 0xF2, CHR 0xF3, CHR 0xF4, CHR 0xF5, CHR 0xF6,
              CHR 0xF8, CHR 0xF9, CHR 0xFA, CHR 0xFB, CHR 0xFC, CHR 0xFD, CHR 0xFE]))
      \<longrightarrow> lower [c] = [d])
   \<and> (c \<notin> set (''ABCDEFGHIJKLMNOPQRSTUVWXYZ''
           @ [CHR 0xC0, CHR 0xC1, CHR 0xC2, CHR 0xC3, CHR 0xC4, CHR 0xC5, CHR 0xC6, CHR 0xC7,
              CHR 0xC8, CHR 0xC9, CHR 0xCA, CHR 0xCB, CHR 0xCC, CHR 0xCD, CHR 0xCE, CHR 0xCF,
              CHR 0xD0, CHR 0xD1, CHR 0xD2, CHR 0xD3, CHR 0xD4, CHR 0xD5, CHR 0xD6,
              CHR 0xD8, CHR 0xD9, CHR 0xDA, CHR 0xDB, CHR 0xDC, CHR 0xDD, CHR 0xDE])
      \<longrightarrow> lower [c] = [c])
   \<and> docker_image_name h2o_def = ''org/h2o:stable''
   \<and> docker_image_name
        \<lparr>name = ''TPOT'', docker_image = \<lparr>author = ''org'', image_opt = None, tag = ''stable''\<rparr>\<rparr>
      = ''org/tpot:stable''
   \<and> docker_image_name
        \<lparr>name = ''AutoSklearn'',
         docker_image = \<lparr>author = ''automl'', image_opt = Some '''', tag = ''0.5''\<rparr>\<rparr>
      = ''automl/autosklearn:0.5''"
proof -
  have a: "name fd = name fd' \<and> docker_image fd = docker_image fd'
      \<longrightarrow> docker_image_name fd = docker_image_name fd'"
    by (auto simp: docker_image_name_def Let_def split: option.splits)
  have b: "image_opt (docker_image fd) = None \<or> image_opt (docker_image fd) = Some []
      \<longrightarrow> docker_image_name fd
          = author (docker_image fd) @ ''/'' @ lower (name fd) @ '':'' @ tag (docker_image fd)"
    by (auto simp: docker_image_name_def Let_def)
  have c: "\<forall>i. image_opt (docker_image fd) = Some i \<and> i \<noteq> []
      \<longrightarrow> docker_image_name fd
          = author (docker_image fd) @ ''/'' @ i @ '':'' @ tag (docker_image fd)"
    by (auto simp: docker_image_name_def Let_def)
  have e1: "docker_image_name h2o_def = ''org/h2o:stable''"
    by (simp add: docker_image_name_def Let_def lower_def char_lower_def)
  have e2: "docker_image_name
        \<lparr>name = ''TPOT'', docker_image = \<lparr>author = ''org'', image_opt = None, tag = ''stable''\<rparr>\<rparr>
      = ''org/tpot:stable''"
    by (simp add: docker_image_name_def Let_def lower_def char_lower_def)
  have e3: "docker_image_name
        \<lparr>name = ''AutoSklearn'',
         docker_image = \<lparr>author = ''automl'', image_opt = Some '''', tag = ''0.5''\<rparr>\<rparr>
      = ''automl/autosklearn:0.5''"
    by (simp add: docker_image_name_def Let_def lower_def char_lower_def)
  from a b c e1 e2 e3 lower_append char_lower_upper char_lower_other
  show ?thesis by (simp only: lower_single list.inject simp_thms) blast
qed

theorem docker_image_name_pure_witness:
  "docker_image_name
     \<lparr>name = ''H2O'', docker_image = \<lparr>author = ''org'', image_opt = None, tag = ''stable''\<rparr>\<rparr>
   = ''org/'' @ lower ''H2O'' @ '':stable''
   \<and> lower ''H2O'' = ''h2o''
   \<and> lower ''A'' = ''a''
   \<and> lower ''_'' = ''_''
   \<and> docker_image_name
     \<lparr>name = ''H2O'',
      docker_image = \<lparr>author = ''org'', image_opt = Some ''h2oai'', tag = ''3.22''\<rparr>\<rparr>
   = ''org/h2oai:3.22''"
  using docker_image_name_pure
    [where fd = "\<lparr>name = ''H2O'',
       docker_image = \<lparr>author = ''org'', image_opt = None, tag = ''stable''\<rparr>\<rparr>"
     and fd' = "\<lparr>name = ''H2O'',
       docker_image = \<lparr>author = ''org'', image_opt = None, tag = ''stable''\<rparr>\<rparr>"
     and s = "''H''" and t = "''2O''" and c = "CHR ''A''" and d = "CHR ''a''"]
    docker_image_name_pure
    [where fd = "\<lparr>name = ''H2O'',
       docker_image = \<lparr>author = ''org'', image_opt = Some ''h2oai'', tag = ''3.22''\<rparr>\<rparr>"
     and fd' = "\<lparr>name = ''H2O'',
       docker_image = \<lparr>author = ''org'', image_opt = Some ''h2oai'', tag = ''3.22''\<rparr>\<rparr>"
     and s = "''H''" and t = "''2O''" and c = "CHR ''_''" and d = "CHR ''a''"]
  by (simp add: lower_def char_lower_def)

section \<open>Validation of the requested parallelism\<close>

text \<open>
  Claim C3, as amended. For every requested value \<open>v \<ge> 0\<close> of \<^verbatim>\<open>parallel_jobs\<close>, the
  value after validation is \<open>v\<close> when \<open>1 \<le> v \<le> max_parallel_jobs\<close> and
  \<open>max_parallel_jobs\<close> otherwise, that is for \<open>v = 0\<close> and for \<open>v\<close> above the ceiling;
  nothing else of the object changes, one warning is logged exactly when the value is
  replaced, and the method returns in every case.
\<close>

theorem validate_clamps_nonnegative:
  assumes "0 \<le> parallel_jobs self"
  shows "parallel_jobs (fst (validate self))
      = spec_clamped (parallel_jobs self) (max_parallel_jobs (rconfig self))
    \<and> fst (validate self)
      = self\<lparr>parallel_jobs :=
               spec_clamped (parallel_jobs self) (max_parallel_jobs (rconfig self))\<rparr>
    \<and> snd (validate self)
      = (if parallel_jobs self = 0 \<or> parallel_jobs self > max_parallel_jobs (rconfig self)
         then [Warning ''forcing parallelization to its upper limit: %s''
                 (max_parallel_jobs (rconfig self))]
         else [])"
  using assms by (auto simp: validate_def spec_clamped_def)

theorem validate_clamps_nonnegative_witness:
  "parallel_jobs (fst (validate (h2o_small\<lparr>parallel_jobs := 0\<rparr>))) = 4
   \<and> parallel_jobs (fst (validate (h2o_small\<lparr>parallel_jobs := 7\<rparr>))) = 4
   \<and> parallel_jobs (fst (validate (h2o_small\<lparr>parallel_jobs := 3\<rparr>))) = 3
   \<and> snd (validate (h2o_small\<lparr>parallel_jobs := 7\<rparr>))
     = [Warning ''forcing parallelization to its upper limit: %s'' 4]"
  using validate_clamps_nonnegative [where self = "h2o_small\<lparr>parallel_jobs := 0\<rparr>"]
    validate_clamps_nonnegative [where self = "h2o_small\<lparr>parallel_jobs := 7\<rparr>"]
    validate_clamps_nonnegative [where self = "h2o_small\<lparr>parallel_jobs := 3\<rparr>"]
  by (simp add: spec_clamped_def)

text \<open>
  The claim as the specification states it fails for a negative request: with a ceiling
  of 4, a request of \<open>-1\<close> is outside \<open>1 \<dots> 4\<close>, so the specification gives 4, and
  validation leaves \<open>-1\<close>.
\<close>

theorem validate_negative_counterexample:
  "parallel_jobs (fst (validate (h2o_small\<lparr>parallel_jobs := - 1\<rparr>))) = - 1
   \<and> spec_clamped (- 1) (max_parallel_jobs (rconfig (h2o_small\<lparr>parallel_jobs := - 1\<rparr>))) = 4
   \<and> parallel_jobs (fst (validate (h2o_small\<lparr>parallel_jobs := - 1\<rparr>)))
     \<noteq> spec_clamped (parallel_jobs (h2o_small\<lparr>parallel_jobs := - 1\<rparr>))
         (max_parallel_jobs (rconfig (h2o_small\<lparr>parallel_jobs := - 1\<rparr>)))"
  by (simp add: validate_def spec_clamped_def)

section \<open>The image-existence check\<close>

text \<open>
  Claim C4. When the engine prints \<open>out\<close>, the existence check returns a truth value and
  raises nothing, and the value is true exactly when the stripped output is non-empty
  and consists of the characters \<^verbatim>\<open>0-9a-f\<close> alone. Output \<^verbatim>\<open>a1b2c3d4\<close> with a line
  feed gives true; empty output and \<^verbatim>\<open>Error: no such image\<close> with a line feed give
  false.
\<close>

theorem image_exists_only_hex_id:
  "(run_cmd h (images_cmd self) = Inr out \<longrightarrow>
      snd (docker_image_exists h self)
        = Inr (strip out \<noteq> [] \<and> list_all is_hex_digit (strip out)))
   \<and> (run_cmd h (images_cmd self) = Inr ''a1b2c3d4\<newline>'' \<longrightarrow>
        snd (docker_image_exists h self) = Inr True)
   \<and> (run_cmd h (images_cmd self) = Inr '''' \<longrightarrow>
        snd (docker_image_exists h self) = Inr False)
   \<and> (run_cmd h (images_cmd self) = Inr ''Error: no such image\<newline>'' \<longrightarrow>
        snd (docker_image_exists h self) = Inr False)"
proof -
  have "re_match_hex_id (strip ''a1b2c3d4\<newline>'')"
    by (simp add: strip_lower_hex_line re_match_hex_id_def at_dollar_def is_hex_digit_def)
  moreover have "\<not> re_match_hex_id (strip '''')"
    by (simp add: strip_def re_match_hex_id_def)
  moreover have "\<not> re_match_hex_id (strip ''Error: no such image\<newline>'')"
    by (simp add: strip_error_line re_match_hex_id_def at_dollar_def is_hex_digit_def)
  ultimately show ?thesis
    by (auto simp: snd_docker_image_exists re_match_hex_id_strip)
qed

theorem image_exists_only_hex_id_witness:
  "snd (docker_image_exists (host_printing ''a1b2c3d4\<newline>'') h2o_small) = Inr True
   \<and> snd (docker_image_exists (host_printing '''') h2o_small) = Inr False
   \<and> snd (docker_image_exists (host_printing ''Error: no such image\<newline>'') h2o_small)
     = Inr False"
  using image_exists_only_hex_id
    [where h = "host_printing ''a1b2c3d4\<newline>''" and self = h2o_small
       and out = "''a1b2c3d4\<newline>''"]
    image_exists_only_hex_id
    [where h = "host_printing ''''" and self = h2o_small and out = "''''"]
    image_exists_only_hex_id
    [where h = "host_printing ''Error: no such image\<newline>''" and self = h2o_small
       and out = "''Error: no such image\<newline>''"]
  by (simp add: strip_lower_hex_line strip_error_line strip_Nil is_hex_digit_def)

text \<open>
  Claim C10. The existence check accepts lower-case hexadecimal identifiers only: when
  the stripped output of the engine holds a character that is not one of
  \<^verbatim>\<open>0123456789abcdef\<close>, the check reports that the image does not exist. The upper-case
  digits \<^verbatim>\<open>A\<close> to \<^verbatim>\<open>F\<close> are such characters, so \<^verbatim>\<open>A1B2C3D4\<close> with a line feed
  is rejected.
\<close>

theorem image_exists_rejects_upper_case:
  "(run_cmd h (images_cmd self) = Inr out \<and> c \<in> set (strip out) \<and> \<not> is_hex_digit c \<longrightarrow>
      snd (docker_image_exists h self) = Inr False)
   \<and> (is_hex_digit c \<longleftrightarrow> c \<in> set ''0123456789abcdef'')
   \<and> list_all (\<lambda>c. \<not> is_hex_digit c) ''ABCDEF''
   \<and> (run_cmd h (images_cmd self) = Inr ''A1B2C3D4\<newline>'' \<longrightarrow>
        snd (docker_image_exists h self) = Inr False)"
proof -
  have "\<not> re_match_hex_id (strip ''A1B2C3D4\<newline>'')"
    by (simp add: strip_upper_hex_line re_match_hex_id_def at_dollar_def is_hex_digit_def)
  then show ?thesis
    by (auto simp: snd_docker_image_exists re_match_hex_id_strip list_all_iff is_hex_digit_def)
qed

theorem image_exists_rejects_upper_case_witness:
  "snd (docker_image_exists (host_printing ''A1B2C3D4\<newline>'') h2o_small) = Inr False
   \<and> snd (docker_image_exists (host_printing ''a1b2c3d4 x\<newline>'') h2o_small) = Inr False"
  using image_exists_rejects_upper_case
    [where h = "host_printing ''A1B2C3D4\<newline>''" and self = h2o_small
       and out = "''A1B2C3D4\<newline>''" and c = "CHR ''A''"]
    image_exists_rejects_upper_case
    [where h = "host_printing ''a1b2c3d4 x\<newline>''" and self = h2o_small
       and out = "''a1b2c3d4 x\<newline>''" and c = "CHR '' ''"]
  by (simp add: strip_def is_space_def is_hex_digit_def)

section \<open>Setup\<close>

text \<open>
  Claim C1, as amended. A build is invoked by \<^verbatim>\<open>setup\<close> only if the mode is \<^verbatim>\<open>force\<close>,
  or the mode is \<^verbatim>\<open>auto\<close> and the existence check returns false, and then with the
  cache enabled exactly when the mode is not \<^verbatim>\<open>force\<close>. In these two cases the build
  is invoked whenever writing the build descriptor succeeds. In mode \<^verbatim>\<open>skip\<close>, setup
  does nothing at all: no query, no descriptor, no build, no publish.
\<close>

theorem setup_build_policy:
  "(RunCmd (build_cmd self cache) \<in> set (fst (setup_docker h self mode upload))
      \<longrightarrow> (mode = Force \<or> (mode = Auto \<and> snd (docker_image_exists h self) = Inr False))
          \<and> cache = (mode \<noteq> Force))
   \<and> ((mode = Force \<or> (mode = Auto \<and> snd (docker_image_exists h self) = Inr False))
       \<and> snd (generate_docker_script h self (custom_commands_of self)) = Inr ()
      \<longrightarrow> RunCmd (build_cmd self (mode \<noteq> Force)) \<in> set (fst (setup_docker h self mode upload)))
   \<and> (mode = Skip \<longrightarrow> setup_docker h self mode upload = ([], Inr ()))"
proof (cases mode)
  case Auto
  then show ?thesis
    by (cases "run_cmd h (images_cmd self)")
       (auto simp: setup_unfold returns_def split: option.splits sum.splits)
next
  case Skip
  then show ?thesis
    by (simp add: setup_docker_def returns_def)
next
  case Force
  then show ?thesis
    by (auto simp: setup_unfold returns_def split: option.splits sum.splits)
qed

theorem setup_build_policy_witness:
  "RunCmd (build_cmd h2o_small True)
     \<in> set (fst (setup_docker (host_printing '''') h2o_small Auto False))
   \<and> RunCmd (build_cmd h2o_small False)
     \<in> set (fst (setup_docker (host_printing ''a1b2c3d4\<newline>'') h2o_small Force False))
   \<and> RunCmd (build_cmd h2o_small True)
     \<notin> set (fst (setup_docker (host_printing ''a1b2c3d4\<newline>'') h2o_small Auto False))
   \<and> setup_docker (host_printing '''') h2o_small Skip True = ([], Inr ())"
  using setup_build_policy
    [where self = h2o_small and cache = True and h = "host_printing ''''"
       and mode = Auto and upload = False]
    setup_build_policy
    [where self = h2o_small and cache = False and h = "host_printing ''a1b2c3d4\<newline>''"
       and mode = Force and upload = False]
    setup_build_policy
    [where self = h2o_small and cache = True and h = "host_printing ''a1b2c3d4\<newline>''"
       and mode = Auto and upload = False]
    setup_build_policy
    [where self = h2o_small and cache = True and h = "host_printing ''''"
       and mode = Skip and upload = True]
  by (simp add: docker_image_exists_eq generate_docker_script_eq match_lower_hex_line
        no_match_empty)

text \<open>
  The claim as the specification states it (a build is triggered if and only if the
  mode is \<^verbatim>\<open>force\<close>, or \<^verbatim>\<open>auto\<close> with no image) fails where the descriptor cannot be
  written: in mode \<^verbatim>\<open>force\<close> on a host that refuses the write, setup stops with the
  error of the write and invokes no build, neither without nor with the cache.
\<close>

theorem setup_force_write_failure_counterexample:
  "RunCmd (build_cmd h2o_small False)
     \<notin> set (fst (setup_docker read_only_host h2o_small Force False))
   \<and> RunCmd (build_cmd h2o_small True)
     \<notin> set (fst (setup_docker read_only_host h2o_small Force False))
   \<and> snd (setup_docker read_only_host h2o_small Force False)
     = Inl (OSError ''Permission denied'')"
  by (simp add: setup_unfold returns_def)

text \<open>
  Claim C9. If writing the build descriptor raises, then no call of setup invokes the
  build or the publish command. In mode \<^verbatim>\<open>force\<close>, and in mode \<^verbatim>\<open>auto\<close> when the
  existence check returns false, the attempted write is the last thing setup does, and
  setup ends with the error of the write.
\<close>

theorem setup_write_failure_aborts:
  assumes "write_file h (docker_script self)
             (docker_content (custom_commands_of self) (framework_name self)
                (script (rconfig self))) = Some e"
  shows "RunCmd (build_cmd self cache) \<notin> set (fst (setup_docker h self mode upload))
     \<and> RunCmd (push_cmd self) \<notin> set (fst (setup_docker h self mode upload))
     \<and> (mode = Force \<longrightarrow>
          setup_docker h self mode upload =
            ([WriteFile (docker_script self)
                (docker_content (custom_commands_of self) (framework_name self)
                   (script (rconfig self)))], Inl e))
     \<and> (mode = Auto \<and> snd (docker_image_exists h self) = Inr False \<longrightarrow>
          setup_docker h self mode upload =
            ([RunCmd (images_cmd self),
              WriteFile (docker_script self)
                (docker_content (custom_commands_of self) (framework_name self)
                   (script (rconfig self)))], Inl e))"
proof (cases mode)
  case Auto
  with assms show ?thesis
    by (cases "run_cmd h (images_cmd self)")
       (auto simp: setup_unfold returns_def split: option.splits sum.splits)
next
  case Skip
  then show ?thesis
    by (simp add: setup_docker_def returns_def)
next
  case Force
  with assms show ?thesis
    by (auto simp: setup_unfold returns_def split: option.splits sum.splits)
qed

theorem setup_write_failure_aborts_witness:
  "setup_docker read_only_host h2o_small Force True
     = ([WriteFile (docker_script h2o_small)
           (docker_content (custom_commands_of h2o_small) ''h2o'' ''runbenchmark.py'')],
        Inl (OSError ''Permission denied''))
   \<and> setup_docker read_only_host h2o_small Auto True
     = ([RunCmd (images_cmd h2o_small),
         WriteFile (docker_script h2o_small)
           (docker_content (custom_commands_of h2o_small) ''h2o'' ''runbenchmark.py'')],
        Inl (OSError ''Permission denied''))
   \<and> RunCmd (build_cmd h2o_small False)
     \<notin> set (fst (setup_docker read_only_host h2o_small Force True))
   \<and> RunCmd (push_cmd h2o_small)
     \<notin> set (fst (setup_docker read_only_host h2o_small Force True))"
  using setup_write_failure_aborts
    [where h = read_only_host and self = h2o_small and e = "OSError ''Permission denied''"
       and cache = False and mode = Force and upload = True]
    setup_write_failure_aborts
    [where h = read_only_host and self = h2o_small and e = "OSError ''Permission denied''"
       and cache = False and mode = Auto and upload = True]
  by (simp add: docker_image_exists_eq no_match_empty)

section \<open>The job factory\<close>

text \<open>
  Claim C6. When \<^verbatim>\<open>parallel_jobs\<close> is 1, a whole-benchmark run produces exactly one
  job. Its name is made of the benchmark name and the framework name, and the command
  it runs names the framework and the benchmark, passes neither a task nor folds, and
  ends with \<^verbatim>\<open>-i /input -o /output -s skip\<close>.
\<close>

theorem run_single_job:
  assumes "parallel_jobs self = 1"
  shows "run_jobs_of self benchmark_jobs =
      [\<lparr>job_name = ''docker_'' @ benchmark_name self @ ''__'' @ framework_name self,
        job_params = framework_name self @ '' '' @ benchmark_name self @ ''  ''\<rparr>]
    \<and> fst (job_run h self (hd (run_jobs_of self benchmark_jobs))) =
      [RunCmd (''docker run -v '' @ input_dir (rconfig self) @ '':/input -v ''
         @ output_dir (rconfig self) @ '':/output --rm ''
         @ docker_image_name (framework_def self) @ '' ''
         @ framework_name self @ '' '' @ benchmark_name self
         @ ''   -i /input -o /output -s skip'')]"
  using assms
  by (simp add: run_jobs_of_def make_job_def fst_job_run run_docker_cmd_def self_image_name_def)

theorem run_single_job_witness:
  "run_jobs_of h2o_small [] = [\<lparr>job_name = ''docker_small__h2o'', job_params = ''h2o small  ''\<rparr>]
   \<and> fst (job_run (host_printing '''') h2o_small (hd (run_jobs_of h2o_small []))) =
      [RunCmd ''docker run -v /data/in:/input -v /data/out:/output --rm org/h2o:stable h2o small   -i /input -o /output -s skip'']"
  using run_single_job
    [where self = h2o_small and benchmark_jobs = "[]" and h = "host_printing ''''"]
  by (auto simp: docker_image_name_def lower_def char_lower_def)

text \<open>
  Claim C2, as amended. The parameters of every job that \<^verbatim>\<open>_make_job\<close> produces are
  the framework name, the benchmark name, then \<^verbatim>\<open>-t\<close> and the task name when the job
  is for a task, then, when folds are given, one \<^verbatim>\<open>-f\<close> followed by the folds joined
  by spaces. Running the job invokes the container with these parameters followed by
  \<^verbatim>\<open>-i /input -o /output -s skip\<close>.
\<close>

theorem make_job_command_line:
  "job_params (make_job self task_name folds) =
     framework_name self @ '' '' @ benchmark_name self @ '' ''
     @ (case task_name of None \<Rightarrow> '''' | Some t \<Rightarrow> ''-t '' @ t)
     @ '' ''
     @ (case folds of
          None \<Rightarrow> ''''
        | Some fs \<Rightarrow> if fs = [] then '''' else ''-f '' @ join '' '' (map str_int fs))
   \<and> fst (job_run h self (make_job self task_name folds)) =
      [RunCmd (''docker run -v '' @ input_dir (rconfig self) @ '':/input -v ''
         @ output_dir (rconfig self) @ '':/output --rm ''
         @ docker_image_name (framework_def self) @ '' ''
         @ job_params (make_job self task_name folds)
         @ '' -i /input -o /output -s skip'')]"
  by (simp only: make_job_params fst_job_run run_docker_cmd_def self_image_name_def simp_thms)

theorem make_job_command_line_witness:
  "job_params (make_job h2o_small (Some ''t1'') (Some [0, 1])) = ''h2o small -t t1 -f 0 1''
   \<and> fst (job_run (host_printing '''') h2o_small
            (make_job h2o_small (Some ''t1'') (Some [0, 1]))) =
      [RunCmd ''docker run -v /data/in:/input -v /data/out:/output --rm org/h2o:stable h2o small -t t1 -f 0 1 -i /input -o /output -s skip'']"
  using make_job_command_line
    [where self = h2o_small and task_name = "Some ''t1''" and folds = "Some [0, 1]"
       and h = "host_printing ''''"]
  by (simp add: docker_image_name_def lower_def char_lower_def str_int_0 str_int_1)

text \<open>
  The claim as the specification states it fails for the job of task \<^verbatim>\<open>t1\<close> with the
  folds 0 and 1: the words that follow the image reference in the command of the job
  hold the benchmark name beside \<^verbatim>\<open>-t t1\<close>, and one \<^verbatim>\<open>-f\<close> for both folds, where the
  specification's command line has the task alone and \<^verbatim>\<open>-f\<close> before each fold.
\<close>

theorem make_job_cli_counterexample:
  "split_ws (run_docker_cmd h2o_small
      (job_params (make_job h2o_small (Some ''t1'') (Some [0, 1]))))
     = [''docker'', ''run'', ''-v'', ''/data/in:/input'', ''-v'', ''/data/out:/output'', ''--rm'',
        ''org/h2o:stable'',
        ''h2o'', ''small'', ''-t'', ''t1'', ''-f'', ''0'', ''1'',
        ''-i'', ''/input'', ''-o'', ''/output'', ''-s'', ''skip'']
   \<and> spec_cli_words ''h2o'' (Inr ''t1'') [0, 1]
     = [''h2o'', ''-t'', ''t1'', ''-f'', ''0'', ''-f'', ''1'',
        ''-i'', ''/input'', ''-o'', ''/output'', ''-s'', ''skip'']
   \<and> drop 8 (split_ws (run_docker_cmd h2o_small
                 (job_params (make_job h2o_small (Some ''t1'') (Some [0, 1])))))
     \<noteq> spec_cli_words ''h2o'' (Inr ''t1'') [0, 1]"
  by (simp add: make_job_params run_docker_cmd_def self_image_name_def docker_image_name_def
        lower_def char_lower_def str_int_0 str_int_1 split_ws_def is_space_def
        spec_cli_words_def)




section \<open>Job names\<close>

subsection \<open>The decimal numeral and the joined fold list determine their arguments\<close>

lemma digit_in_digits: "k < 10 \<Longrightarrow> ''0123456789'' ! k \<in> set ''0123456789''"
  by (rule nth_mem) simp

lemma digit_inj:
  assumes "j < 10" and "k < 10" and "''0123456789'' ! j = ''0123456789'' ! k"
  shows "j = k"
proof -
  have "distinct ''0123456789''" by simp
  moreover have "j < length ''0123456789''" and "k < length ''0123456789''"
    using assms by simp_all
  ultimately show ?thesis using assms(3) by (simp only: nth_eq_iff_index_eq)
qed

lemma str_nat_digits: "set (str_nat n) \<subseteq> set ''0123456789''"
proof (induction n rule: str_nat.induct)
  case (1 n)
  show ?case
  proof (cases "n < 10")
    case True
    have "str_nat n = [''0123456789'' ! n]" using True by (subst str_nat.simps) simp
    with digit_in_digits [OF True] show ?thesis by simp
  next
    case False
    have eq: "str_nat n = str_nat (n div 10) @ [''0123456789'' ! (n mod 10)]"
      using False by (subst str_nat.simps) simp
    have "n mod 10 < 10" by simp
    from digit_in_digits [OF this] "1.IH" [OF False] show ?thesis
      unfolding eq by simp
  qed
qed

lemma str_nat_not_Nil: "str_nat n \<noteq> []"
  by (subst str_nat.simps) simp

lemma str_nat_inj: "str_nat n = str_nat m \<Longrightarrow> n = m"
proof (induction n arbitrary: m rule: str_nat.induct)
  case (1 n)
  have en: "str_nat n = (if n < 10 then [''0123456789'' ! n]
      else str_nat (n div 10) @ [''0123456789'' ! (n mod 10)])"
    by (subst str_nat.simps) simp
  have em: "str_nat m = (if m < 10 then [''0123456789'' ! m]
      else str_nat (m div 10) @ [''0123456789'' ! (m mod 10)])"
    by (subst str_nat.simps) simp
  show ?case
  proof (cases "n < 10")
    case n: True
    show ?thesis
    proof (cases "m < 10")
      case True
      with n "1.prems" en em show ?thesis by (auto dest: digit_inj)
    next
      case False
      with n "1.prems" en em str_nat_not_Nil [of "m div 10"] show ?thesis by auto
    qed
  next
    case n: False
    show ?thesis
    proof (cases "m < 10")
      case True
      with n "1.prems" en em str_nat_not_Nil [of "n div 10"] show ?thesis by auto
    next
      case False
      with n "1.prems" en em
      have a: "str_nat (n div 10) = str_nat (m div 10)"
        and b: "''0123456789'' ! (n mod 10) = ''0123456789'' ! (m mod 10)"
        by auto
      from "1.IH" [OF n a] have d: "n div 10 = m div 10" .
      have "n mod 10 < 10" and "m mod 10 < 10" by simp_all
      from digit_inj [OF this b] have r: "n mod 10 = m mod 10" .
      have "n = 10 * (n div 10) + n mod 10" by simp
      also have "\<dots> = 10 * (m div 10) + m mod 10" using d r by simp
      also have "\<dots> = m" by simp
      finally show ?thesis .
    qed
  qed
qed

lemma str_int_chars: "set (str_int i) \<subseteq> set ''-0123456789''"
proof -
  have lit: "set ''-0123456789'' = insert (CHR ''-'') (set ''0123456789'')"
    by (simp only: list.set)
  show ?thesis
  proof (cases "i < 0")
    case True
    then have "set (str_int i) = insert (CHR ''-'') (set (str_nat (nat (- i))))"
      by (simp add: str_int_def)
    also have "\<dots> \<subseteq> insert (CHR ''-'') (set ''0123456789'')"
      by (rule insert_mono) (rule str_nat_digits)
    finally show ?thesis by (simp only: lit)
  next
    case False
    then have "set (str_int i) = set (str_nat (nat i))"
      by (simp add: str_int_def)
    also have "\<dots> \<subseteq> set ''0123456789''"
      by (rule str_nat_digits)
    also have "\<dots> \<subseteq> insert (CHR ''-'') (set ''0123456789'')"
      by (rule subset_insertI)
    finally show ?thesis by (simp only: lit)
  qed
qed

lemma str_int_no_colon: "CHR '':'' \<notin> set (str_int i)"
proof
  assume "CHR '':'' \<in> set (str_int i)"
  with str_int_chars have "CHR '':'' \<in> set ''-0123456789''" by (rule subsetD)
  then show False by simp
qed

lemma str_int_no_underscore: "CHR ''_'' \<notin> set (str_int i)"
proof
  assume "CHR ''_'' \<in> set (str_int i)"
  with str_int_chars have "CHR ''_'' \<in> set ''-0123456789''" by (rule subsetD)
  then show False by simp
qed

lemma str_nat_no_minus: "CHR ''-'' \<notin> set (str_nat k)"
proof
  assume "CHR ''-'' \<in> set (str_nat k)"
  with str_nat_digits have "CHR ''-'' \<in> set ''0123456789''" by (rule subsetD)
  then show False by simp
qed

lemma str_int_not_Nil: "str_int i \<noteq> []"
  by (simp add: str_int_def str_nat_not_Nil)

lemma str_int_inj: "str_int i = str_int j \<Longrightarrow> i = j"
proof -
  assume a: "str_int i = str_int j"
  have minus: "CHR ''-'' # s \<noteq> str_nat k" for s k
  proof
    assume "CHR ''-'' # s = str_nat k"
    then have "CHR ''-'' \<in> set (str_nat k)" by (metis list.set_intros(1))
    with str_nat_no_minus [of k] show False by simp
  qed
  show ?thesis
  proof (cases "i < 0")
    case i: True
    show ?thesis
    proof (cases "j < 0")
      case True
      with i a have "str_nat (nat (- i)) = str_nat (nat (- j))" by (simp add: str_int_def)
      then have "nat (- i) = nat (- j)" by (rule str_nat_inj)
      with i True show ?thesis by simp
    next
      case False
      with i a minus show ?thesis by (simp add: str_int_def)
    qed
  next
    case i: False
    show ?thesis
    proof (cases "j < 0")
      case True
      with i a minus [of "str_nat (nat (- j))" "nat i"] show ?thesis
        by (simp add: str_int_def)
    next
      case False
      with i a have "str_nat (nat i) = str_nat (nat j)" by (simp add: str_int_def)
      then have "nat i = nat j" by (rule str_nat_inj)
      with i False show ?thesis by simp
    qed
  qed
qed

lemma takeWhile_sep:
  assumes "c \<notin> set x"
  shows "takeWhile (\<lambda>a. a \<noteq> c) (x @ c # r) = x"
proof -
  have "takeWhile (\<lambda>a. a \<noteq> c) (x @ c # r) = x @ takeWhile (\<lambda>a. a \<noteq> c) (c # r)"
  proof (rule takeWhile_append2)
    fix a assume "a \<in> set x"
    with assms show "a \<noteq> c" by auto
  qed
  then show ?thesis by simp
qed

lemma append_sep_eq:
  assumes "c \<notin> set x" and "c \<notin> set y" and "x @ c # r = y @ c # r'"
  shows "x = y \<and> r = r'"
proof -
  have "x = takeWhile (\<lambda>a. a \<noteq> c) (x @ c # r)"
    using takeWhile_sep [OF assms(1)] by simp
  also have "\<dots> = takeWhile (\<lambda>a. a \<noteq> c) (y @ c # r')"
    by (simp only: assms(3))
  also have "\<dots> = y"
    using takeWhile_sep [OF assms(2)] by simp
  finally have xy: "x = y" .
  with assms(3) have "r = r'" by simp
  with xy show ?thesis by simp
qed

lemma join_inj:
  assumes "\<forall>x \<in> set xs. x \<noteq> [] \<and> c \<notin> set x"
    and "\<forall>y \<in> set ys. y \<noteq> [] \<and> c \<notin> set y"
    and "join [c] xs = join [c] ys"
  shows "xs = ys"
  using assms
proof (induction xs arbitrary: ys)
  case Nil
  show ?case
  proof (cases ys)
    case Nil
    then show ?thesis by simp
  next
    case (Cons y ys')
    with Nil.prems have "y \<noteq> []" by simp
    then have "join [c] (y # ys') \<noteq> []" by (simp add: join_Cons)
    with Nil.prems Cons show ?thesis by simp
  qed
next
  case (Cons x xs)
  from Cons.prems(1) have x: "x \<noteq> []" "c \<notin> set x" by simp_all
  from Cons.prems(1) have xs: "\<forall>x \<in> set xs. x \<noteq> [] \<and> c \<notin> set x" by simp
  have nonempty: "join [c] (x # xs) \<noteq> []" using x by (simp add: join_Cons)
  show ?case
  proof (cases ys)
    case Nil
    with Cons.prems(3) nonempty show ?thesis by simp
  next
    case ys: (Cons y ys')
    from Cons.prems(2) ys have y: "y \<noteq> []" "c \<notin> set y" by simp_all
    from Cons.prems(2) ys have ys': "\<forall>y \<in> set ys'. y \<noteq> [] \<and> c \<notin> set y" by simp
    from Cons.prems(3) ys have eq: "join [c] (x # xs) = join [c] (y # ys')" by simp
    show ?thesis
    proof (cases "xs = []")
      case xe: True
      show ?thesis
      proof (cases "ys' = []")
        case True
        with xe eq have "x = y" by (simp add: join_Cons)
        with xe True ys show ?thesis by simp
      next
        case False
        with xe eq have "x = y @ c # join [c] ys'" by (simp add: join_Cons)
        then have "c \<in> set x" by simp
        with x show ?thesis by simp
      qed
    next
      case xn: False
      show ?thesis
      proof (cases "ys' = []")
        case True
        with xn eq have "y = x @ c # join [c] xs" by (simp add: join_Cons)
        then have "c \<in> set y" by simp
        with y show ?thesis by simp
      next
        case False
        with xn eq have e: "x @ c # join [c] xs = y @ c # join [c] ys'"
          by (simp add: join_Cons)
        from append_sep_eq [OF x(2) y(2) e]
        have xy: "x = y" and rest: "join [c] xs = join [c] ys'" by simp_all
        from Cons.IH [OF xs ys' rest] have "xs = ys'" .
        with xy ys show ?thesis by simp
      qed
    qed
  qed
qed

lemma join_chars: "set (join sep xs) \<subseteq> set sep \<union> \<Union> (set ` set xs)"
  by (induction sep xs rule: join.induct) auto

lemma fold_part_inj:
  "join '':'' (map str_int fs) = join '':'' (map str_int fs') \<Longrightarrow> fs = fs'"
proof -
  assume a: "join '':'' (map str_int fs) = join '':'' (map str_int fs')"
  have ok: "\<forall>x \<in> set (map str_int l). x \<noteq> [] \<and> CHR '':'' \<notin> set x" for l
    by (auto simp: str_int_no_colon str_int_not_Nil)
  from join_inj [OF ok ok a] have "map str_int fs = map str_int fs'" .
  moreover have "inj str_int" by (rule injI) (rule str_int_inj)
  ultimately show ?thesis by (simp add: inj_map_eq_map)
qed

lemma fold_part_no_underscore: "CHR ''_'' \<notin> set (join '':'' (map str_int fs))"
proof
  assume "CHR ''_'' \<in> set (join '':'' (map str_int fs))"
  with join_chars [of "'':''" "map str_int fs"]
  obtain f where "CHR ''_'' \<in> set (str_int f)" by auto
  with str_int_no_underscore [of f] show False by simp
qed

lemma task_fold_part_eq:
  assumes "t @ ''_'' @ join '':'' (map str_int fs) = t' @ ''_'' @ join '':'' (map str_int fs')"
  shows "t = t' \<and> fs = fs'"
proof -
  let ?j = "join '':'' (map str_int fs)" and ?j' = "join '':'' (map str_int fs')"
  from assms have "rev (t @ ''_'' @ ?j) = rev (t' @ ''_'' @ ?j')" by simp
  then have "rev ?j @ CHR ''_'' # rev t = rev ?j' @ CHR ''_'' # rev t'" by simp
  moreover have "CHR ''_'' \<notin> set (rev ?j)" and "CHR ''_'' \<notin> set (rev ?j')"
    using fold_part_no_underscore by simp_all
  ultimately have "rev ?j = rev ?j' \<and> rev t = rev t'" by (rule append_sep_eq [rotated 2])
  then show ?thesis using fold_part_inj by simp
qed

subsection \<open>Distinct fold lists give distinct names\<close>

text \<open>
  Claim C8. The fold list is part of the job name, so that job names do not collide
  when one task is scheduled with two different fold lists: for the same task and
  framework, jobs made for different fold lists have different names, and for task names
  that are not empty the name of a job determines both the task and the fold list. Task
  \<^verbatim>\<open>t1\<close> with fold 0 and with fold 1 gives the two names \<^verbatim>\<open>docker_t1_0_\<close> and
  \<^verbatim>\<open>docker_t1_1_\<close>, each followed by the framework name.
\<close>

theorem job_name_distinct_folds:
  "(fs \<noteq> fs' \<longrightarrow>
      job_name (make_job self task_name (Some fs)) \<noteq> job_name (make_job self task_name (Some fs')))
   \<and> (t \<noteq> [] \<and> t' \<noteq> [] \<and> (t \<noteq> t' \<or> fs \<noteq> fs') \<longrightarrow>
      job_name (make_job self (Some t) (Some fs)) \<noteq> job_name (make_job self (Some t') (Some fs')))
   \<and> job_name (make_job self (Some ''t1'') (Some [0])) = ''docker_t1_0_'' @ framework_name self
   \<and> job_name (make_job self (Some ''t1'') (Some [1])) = ''docker_t1_1_'' @ framework_name self"
proof -
  have a: "job_name (make_job self task_name (Some fs)) = job_name (make_job self task_name (Some fs'))
      \<Longrightarrow> fs = fs'"
    by (simp add: make_job_name fold_part_inj)
  have b: "job_name (make_job self (Some t) (Some fs)) = job_name (make_job self (Some t') (Some fs'))
      \<Longrightarrow> t \<noteq> [] \<Longrightarrow> t' \<noteq> [] \<Longrightarrow> t = t' \<and> fs = fs'"
  proof -
    assume e: "job_name (make_job self (Some t) (Some fs)) = job_name (make_job self (Some t') (Some fs'))"
      and "t \<noteq> []" and "t' \<noteq> []"
    then have "(t @ ''_'' @ join '':'' (map str_int fs)) @ (''_'' @ framework_name self)
        = (t' @ ''_'' @ join '':'' (map str_int fs')) @ (''_'' @ framework_name self)"
      by (simp add: make_job_name)
    then have "t @ ''_'' @ join '':'' (map str_int fs) = t' @ ''_'' @ join '':'' (map str_int fs')"
      by (simp only: append_same_eq)
    then show ?thesis by (rule task_fold_part_eq)
  qed
  show ?thesis using a b by (auto simp: make_job_name str_int_0 str_int_1)
qed

theorem job_name_distinct_folds_witness:
  "job_name (make_job h2o_small (Some ''t1'') (Some [0])) = ''docker_t1_0_h2o''
   \<and> job_name (make_job h2o_small (Some ''t1'') (Some [1])) = ''docker_t1_1_h2o''
   \<and> job_name (make_job h2o_small (Some ''t1'') (Some [0]))
     \<noteq> job_name (make_job h2o_small (Some ''t1'') (Some [1]))"
  using job_name_distinct_folds [of "[0]" "[1]" h2o_small "Some ''t1''" "''t1''" "''t1''"]
  by simp

end
